theory Spec2Isabelle
  imports Complex_Main "HOL-Library.Log_Nat"
begin

section \<open>Numbers, configuration and exceptions\<close>

text \<open>
  The engine of \<^verbatim>\<open>SpreadArbitrage.py\<close> computes with Python floats. The embedding
  takes them as exact rationals (\<^typ>\<open>rat\<close>): prices, quantities, fees, balances and
  timestamps (seconds) are rationals, so a statement below is about the exact value of
  the expression the source evaluates, not about its binary rounding. The exception is
  position sizing, where the rounding of the doubles is part of the model.

  \<^verbatim>\<open>round(x, n)\<close> of Python rounds to \<open>n\<close> decimals, ties to the even neighbour.
\<close>

definition round_half_even :: "rat \<Rightarrow> int" where
  "round_half_even x =
     (let f = \<lfloor>x\<rfloor>; d = x - of_int f
      in if d < 1 / 2 then f
         else if 1 / 2 < d then f + 1
         else if even f then f else f + 1)"

definition py_round :: "rat \<Rightarrow> nat \<Rightarrow> rat" where
  "py_round x n = of_int (round_half_even (x * 10 ^ n)) / 10 ^ n"

text \<open>
  Position sizing floors a quotient of floats, and there the rounding of each operation
  decides the integer: \<^verbatim>\<open>0.7 / 0.001\<close> is \<^verbatim>\<open>699.9999999999999\<close>. So the sizing
  arithmetic below rounds the exact result of every operation as binary64 does, to the
  nearest number with a significand of 53 bits, ties to the even significand.
  \<open>binary_exponent x\<close> is the \<open>k\<close> with \<open>2 ^ k \<le> \<bar>x\<bar> < 2 ^ (k + 1)\<close>. The
  exponent range of binary64 is not modelled: a run in which a value leaves the range of
  the normal doubles (about \<open>2.2e-308\<close> to \<open>1.8e308\<close>) is outside the embedding.
\<close>

definition binary_exponent :: "rat \<Rightarrow> int" where
  "binary_exponent x =
     (case quotient_of \<bar>x\<bar> of
        (a, b) \<Rightarrow>
          (let k = bitlen a - bitlen b - 1
           in if 2 powi (k + 1) \<le> \<bar>x\<bar> then k + 1 else k))"

definition to_double :: "rat \<Rightarrow> rat" where
  "to_double x =
     (if x = 0 then 0
      else
        (let e = binary_exponent x - 52
         in sgn x * of_int (round_half_even (\<bar>x\<bar> / 2 powi e)) * 2 powi e))"

text \<open>The module constants (lines 12 to 19). \<open>STARTING_BALANCE\<close> is a global that
  \<open>initialize_balance\<close> may reassign, so it lives in the state below; its initial
  value is \<open>STARTING_BALANCE_init\<close>.\<close>

definition SIMULATION :: bool where "SIMULATION = True"
definition SPREAD :: rat where "SPREAD = 3 / 100"
definition RISK_PER_TRADE :: rat where "RISK_PER_TRADE = 1"
definition MIN_POSITION_SIZE :: rat where "MIN_POSITION_SIZE = 10"
definition STARTING_BALANCE_init :: rat where "STARTING_BALANCE_init = 1000"
definition FUTURES_FEE :: rat where "FUTURES_FEE = 45 / 100000"
definition MARGIN_FEE :: rat where "MARGIN_FEE = 75 / 100000"
definition MAX_TRADE_DURATION :: rat where "MAX_TRADE_DURATION = 1800"

text \<open>Exceptions are values. The first three are the ones \<open>safe_api_call\<close> catches.\<close>

datatype exn =
    BinanceAPIException
  | ConnectionError
  | TimeoutError
  | ZeroDivisionError
  | TypeError
  | OtherError

type_synonym 'a result = "exn + 'a"

fun is_transient :: "exn \<Rightarrow> bool" where
  "is_transient BinanceAPIException = True"
| "is_transient ConnectionError = True"
| "is_transient TimeoutError = True"
| "is_transient _ = False"

section \<open>safe_api_call\<close>

text \<open>
  One invocation of the wrapped operation either returns a value or raises. The
  operation is given by what its invocations do in order: \<open>func k\<close> is the outcome of
  the invocation made in attempt \<open>k\<close>.

  \<open>safe_api_call\<close> (lines 133 to 142) loops over \<open>range(max_retries)\<close>. The model
  returns what the caller sees (a value, the absence value \<open>None\<close>, or the exception
  that escaped) together with the number of invocations made and the list of delays
  passed to \<open>time.sleep\<close>, in seconds.
\<close>

datatype 'a outcome = Returns 'a | Raises exn

record 'a api_run =
  api_result :: "'a option result"
  api_invocations :: nat
  api_sleeps :: "nat list"

definition max_retries :: nat where "max_retries = 3"

fun safe_api_loop :: "(nat \<Rightarrow> 'a outcome) \<Rightarrow> nat list \<Rightarrow> nat \<Rightarrow> nat list \<Rightarrow> 'a api_run" where
  "safe_api_loop func [] n sl =
     \<lparr>api_result = Inr None, api_invocations = n, api_sleeps = sl\<rparr>"
| "safe_api_loop func (attempt # rest) n sl =
     (case func attempt of
        Returns v \<Rightarrow> \<lparr>api_result = Inr (Some v), api_invocations = Suc n, api_sleeps = sl\<rparr>
      | Raises e \<Rightarrow>
          if is_transient e then safe_api_loop func rest (Suc n) (sl @ [2 ^ attempt])
          else \<lparr>api_result = Inl e, api_invocations = Suc n, api_sleeps = sl\<rparr>)"

definition safe_api_call :: "(nat \<Rightarrow> 'a outcome) \<Rightarrow> 'a api_run" where
  "safe_api_call func = safe_api_loop func [0..<max_retries] 0 []"

section \<open>simulate_trade\<close>

text \<open>Lines 293 to 323. The prices may be \<open>None\<close>; the result is always a number.\<close>

definition simulate_trade ::
  "rat option \<Rightarrow> rat option \<Rightarrow> rat \<Rightarrow> rat \<Rightarrow> rat \<Rightarrow> string \<Rightarrow> rat" where
  "simulate_trade entry_price exit_price quantity entry_fee exit_fee trade_type =
     (case (entry_price, exit_price) of
        (Some entry, Some exit) \<Rightarrow>
          if trade_type = ''SPOT_LONG'' then
            (let cost = entry * quantity * (1 + entry_fee);
                 revenue = exit * quantity * (1 - exit_fee)
             in py_round (revenue - cost) 8)
          else if trade_type = ''SPOT_SHORT'' then
            (let revenue = entry * quantity * (1 - entry_fee);
                 cost = exit * quantity * (1 + exit_fee)
             in py_round (revenue - cost) 8)
          else if trade_type = ''FUTURES_LONG'' then
            (let cost = entry * quantity * (1 + entry_fee);
                 revenue = exit * quantity * (1 - exit_fee)
             in py_round (revenue - cost) 8)
          else if trade_type = ''FUTURES_SHORT'' then
            (let revenue = entry * quantity * (1 - entry_fee);
                 cost = exit * quantity * (1 + exit_fee)
             in py_round (revenue - cost) 8)
          else 0
      | _ \<Rightarrow> 0)"

section \<open>The store and the environment\<close>

text \<open>
  The three tables of \<open>init_db\<close> (lines 35 to 129), one record per row, each table a
  list of rows in insertion order. A \<open>SERIAL\<close> column takes its value from a sequence
  of the table; timestamps are seconds. Statements against the store are taken to
  succeed: the store itself is outside the engine.
\<close>

record open_trade =
  ot_id :: nat
  ot_symbol :: string
  ot_market_type :: string
  ot_side :: string
  ot_entry_price :: rat
  ot_quantity :: rat
  ot_timestamp_open :: rat
  ot_close_price :: "rat option"
  ot_timestamp_close :: "rat option"
  ot_profit_usdt :: rat
  ot_closed :: bool

record opportunity =
  ao_id :: nat
  ao_timestamp :: rat
  ao_symbol :: string
  ao_spot_price :: rat
  ao_futures_price :: rat
  ao_spread_percent :: rat
  ao_action :: string
  ao_trade_executed :: bool
  ao_profit_usdt :: rat
  ao_open_trade_id :: "nat option"

record snapshot =
  pt_id :: nat
  pt_timestamp :: rat
  pt_current_balance :: rat
  pt_profit_usdt :: rat
  pt_profit_percent :: rat
  pt_daily_profit :: rat
  pt_weekly_profit :: rat
  pt_monthly_profit :: rat

text \<open>Calls that only the live mode sends to the exchange. They change no table.\<close>

datatype gateway_call =
    TransferSpotToIsolatedMargin string string rat
  | TransferIsolatedMarginToSpot string string rat
  | TransferFuturesToSpot string rat
  | CreateMarginOrder string string rat
  | CreateMarginLoan string string rat
  | RepayMarginLoan string string rat
  | FuturesCreateOrder string string rat

text \<open>
  The state the engine reads and writes: the tables with their sequences, the global
  \<open>STARTING_BALANCE\<close>, how many times the clock and the price feed have been read,
  and the live calls sent so far.
\<close>

record world =
  open_trades :: "open_trade list"
  open_trades_seq :: nat
  arbitrage_opportunities :: "opportunity list"
  arbitrage_opportunities_seq :: nat
  profit_tracking :: "snapshot list"
  profit_tracking_seq :: nat
  STARTING_BALANCE :: rat
  clock_reads :: nat
  fetches :: nat
  gateway_log :: "gateway_call list"

text \<open>
  What the outside answers. \<open>utcnow_at k\<close> is the \<open>k\<close>-th reading of
  \<open>datetime.utcnow()\<close>. A ticker is the \<open>price\<close> field of the exchange's answer
  as \<open>float\<close> reads it, \<open>None\<close> when the field is missing or does not parse;
  \<open>spot_ticker_call n symbol k\<close> is what attempt \<open>k\<close> of
  \<open>client.get_symbol_ticker\<close> does in the \<open>n\<close>-th call of \<open>fetch_prices\<close>.
  \<open>lot_step symbol market_type\<close> is the \<open>stepSize\<close> of the \<open>LOT_SIZE\<close> filter,
  as \<open>float\<close> reads it, when the exchange information has one.
\<close>

type_synonym ticker = "rat option"

record env =
  utcnow_at :: "nat \<Rightarrow> rat"
  spot_ticker_call :: "nat \<Rightarrow> string \<Rightarrow> nat \<Rightarrow> ticker outcome"
  futures_ticker_call :: "nat \<Rightarrow> string \<Rightarrow> nat \<Rightarrow> ticker outcome"
  lot_step :: "string \<Rightarrow> string \<Rightarrow> rat option"
  spot_free_usdt :: "rat option"
  futures_withdraw_usdt :: "rat option"
  isolated_free_usdt :: "string \<Rightarrow> rat option"

definition utcnow :: "env \<Rightarrow> world \<Rightarrow> rat \<times> world" where
  "utcnow e w = (utcnow_at e (clock_reads w), w\<lparr>clock_reads := Suc (clock_reads w)\<rparr>)"

section \<open>Prices, lot sizes and balances\<close>

text \<open>
  \<open>fetch_prices\<close> (lines 167 to 181): two wrapped calls, then the parsing inside a
  \<open>try\<close>. An exception that escapes \<open>safe_api_call\<close> escapes \<open>fetch_prices\<close>
  too, and the futures call is then never made. \<open>quote_at e n symbol\<close> is the answer
  of the \<open>n\<close>-th call.
\<close>

definition quote_at :: "env \<Rightarrow> nat \<Rightarrow> string \<Rightarrow> (rat \<times> rat) option result" where
  "quote_at e n symbol =
     (case api_result (safe_api_call (spot_ticker_call e n symbol)) of
        Inl ex \<Rightarrow> Inl ex
      | Inr spot_ticker \<Rightarrow>
          (case api_result (safe_api_call (futures_ticker_call e n symbol)) of
             Inl ex \<Rightarrow> Inl ex
           | Inr futures_ticker \<Rightarrow>
               (case (spot_ticker, futures_ticker) of
                  (Some (Some spot_price), Some (Some futures_price)) \<Rightarrow>
                    Inr (Some (spot_price, futures_price))
                | _ \<Rightarrow> Inr None)))"

definition fetch_prices :: "env \<Rightarrow> string \<Rightarrow> world \<Rightarrow> (rat \<times> rat) option result \<times> world" where
  "fetch_prices e symbol w = (quote_at e (fetches w) symbol, w\<lparr>fetches := Suc (fetches w)\<rparr>)"

text \<open>
  \<open>get_lot_size\<close> (lines 144 to 165) absorbs every failure into the fallback step,
  the float literal \<^verbatim>\<open>0.001\<close>: the double nearest to one thousandth.
\<close>

definition get_lot_size :: "env \<Rightarrow> string \<Rightarrow> string \<Rightarrow> rat" where
  "get_lot_size e symbol market_type =
     (case lot_step e symbol market_type of
        Some step \<Rightarrow> step
      | None \<Rightarrow> to_double (1 / 1000))"

definition get_real_spot_usdt_balance :: "env \<Rightarrow> rat" where
  "get_real_spot_usdt_balance e = (case spot_free_usdt e of Some b \<Rightarrow> b | None \<Rightarrow> 0)"

definition get_real_futures_usdt_balance :: "env \<Rightarrow> rat" where
  "get_real_futures_usdt_balance e = (case futures_withdraw_usdt e of Some b \<Rightarrow> b | None \<Rightarrow> 0)"

text \<open>\<open>ORDER BY id DESC LIMIT 1\<close> on \<open>profit_tracking\<close>: the row of greatest id.\<close>

fun latest_snapshot :: "snapshot list \<Rightarrow> snapshot option" where
  "latest_snapshot [] = None"
| "latest_snapshot (r # rs) =
     (case latest_snapshot rs of
        None \<Rightarrow> Some r
      | Some r' \<Rightarrow> if pt_id r' < pt_id r then Some r else Some r')"

definition get_available_balance :: "env \<Rightarrow> string \<Rightarrow> world \<Rightarrow> rat" where
  "get_available_balance e market_type w =
     (if SIMULATION then
        (case latest_snapshot (profit_tracking w) of
           Some row \<Rightarrow> pt_current_balance row
         | None \<Rightarrow> STARTING_BALANCE w)
      else if market_type = ''SPOT'' \<or> market_type = ''MARGIN'' then get_real_spot_usdt_balance e
      else if market_type = ''FUTURES'' then get_real_futures_usdt_balance e
      else 0)"

text \<open>
  \<open>calculate_position_size\<close> (lines 280 to 291), every float operation rounded.
  \<open>risk_amount_of\<close> is line 282. The division by a zero price raises.
  \<open>math.floor\<close> gives an integer, which the multiplication by the step turns back
  into a float; \<open>round(quantity, 8)\<close> is the double nearest to the decimal rounding.
  \<open>size_quantity\<close> is the arithmetic of lines 282 to 291 on the balance and the step
  the two lookups return.
\<close>

definition risk_amount_of :: "rat \<Rightarrow> rat" where
  "risk_amount_of balance = to_double (to_double (balance * RISK_PER_TRADE) / 2)"

definition size_quantity :: "rat \<Rightarrow> rat \<Rightarrow> rat \<Rightarrow> rat result" where
  "size_quantity balance price step_size =
     (let risk_amount = risk_amount_of balance
      in if risk_amount < MIN_POSITION_SIZE then Inr 0
         else if price = 0 then Inl ZeroDivisionError
         else
           (let quantity = to_double (risk_amount / price);
                quantity' = (if 0 < step_size
                             then to_double
                                    (of_int \<lfloor>to_double (quantity / step_size)\<rfloor> * step_size)
                             else quantity)
            in Inr (to_double (py_round quantity' 8))))"

definition calculate_position_size :: "env \<Rightarrow> string \<Rightarrow> rat \<Rightarrow> string \<Rightarrow> world \<Rightarrow> rat result" where
  "calculate_position_size e symbol price market_type w =
     size_quantity (get_available_balance e market_type w) price (get_lot_size e symbol market_type)"

section \<open>The balance ledger\<close>

text \<open>\<open>ORDER BY id ASC LIMIT 1\<close>: the row of least id.\<close>

fun earliest_snapshot :: "snapshot list \<Rightarrow> snapshot option" where
  "earliest_snapshot [] = None"
| "earliest_snapshot (r # rs) =
     (case earliest_snapshot rs of
        None \<Rightarrow> Some r
      | Some r' \<Rightarrow> if pt_id r' < pt_id r then Some r' else Some r)"

text \<open>
  The statement of lines 516 to 529: an \<open>INSERT\<close> with
  \<open>ON CONFLICT ON CONSTRAINT profit_tracking_unique DO UPDATE\<close>, the constraint being
  \<open>UNIQUE (current_balance)\<close> (lines 120 to 127). A row that already holds the new
  balance is overwritten in place and keeps its id; otherwise the row is appended under
  the next id. The sequence advances in both cases.
\<close>

definition upsert_snapshot :: "snapshot \<Rightarrow> world \<Rightarrow> world" where
  "upsert_snapshot row w =
     (let new_id = Suc (profit_tracking_seq w);
          rows = profit_tracking w
      in case find (\<lambda>r. pt_current_balance r = pt_current_balance row) rows of
           Some _ \<Rightarrow>
             w\<lparr>profit_tracking :=
                  map (\<lambda>r. if pt_current_balance r = pt_current_balance row
                            then row\<lparr>pt_id := pt_id r\<rparr> else r) rows,
               profit_tracking_seq := new_id\<rparr>
         | None \<Rightarrow>
             w\<lparr>profit_tracking := rows @ [row\<lparr>pt_id := new_id\<rparr>],
               profit_tracking_seq := new_id\<rparr>)"

definition last_balance_of :: "world \<Rightarrow> rat" where
  "last_balance_of w =
     (case latest_snapshot (profit_tracking w) of
        Some row \<Rightarrow> pt_current_balance row
      | None \<Rightarrow> STARTING_BALANCE w)"

definition get_period_profit :: "snapshot list \<Rightarrow> rat \<Rightarrow> rat \<Rightarrow> rat \<Rightarrow> rat" where
  "get_period_profit rows now new_balance days =
     (let period_start = now - days * 86400
      in case earliest_snapshot (filter (\<lambda>r. period_start \<le> pt_timestamp r) rows) of
           Some pr \<Rightarrow> new_balance - pt_current_balance pr
         | None \<Rightarrow> 0)"

text \<open>\<open>update_profit_tracking\<close> (lines 484 to 534).\<close>

definition update_profit_tracking :: "env \<Rightarrow> rat \<Rightarrow> world \<Rightarrow> world" where
  "update_profit_tracking e profit_change w =
     (let last_balance = last_balance_of w;
          new_balance = max 0 (last_balance + profit_change);
          profit_usdt = new_balance - STARTING_BALANCE w;
          profit_percent = (if 0 < STARTING_BALANCE w
                            then (profit_usdt / STARTING_BALANCE w) * 100 else 0);
          (now, w1) = utcnow e w;
          daily_profit = get_period_profit (profit_tracking w1) now new_balance 1;
          weekly_profit = get_period_profit (profit_tracking w1) now new_balance 7;
          monthly_profit = get_period_profit (profit_tracking w1) now new_balance 30
      in upsert_snapshot
           \<lparr>pt_id = 0, pt_timestamp = now, pt_current_balance = new_balance,
            pt_profit_usdt = profit_usdt, pt_profit_percent = profit_percent,
            pt_daily_profit = daily_profit, pt_weekly_profit = weekly_profit,
            pt_monthly_profit = monthly_profit\<rparr> w1)"

text \<open>\<open>initialize_balance\<close> (lines 461 to 482).\<close>

definition initialize_balance :: "env \<Rightarrow> world \<Rightarrow> world" where
  "initialize_balance e w =
     (if length (profit_tracking w) = 0 then
        (let init_balance = (if SIMULATION then STARTING_BALANCE w
                             else get_real_spot_usdt_balance e);
             w0 = (if SIMULATION then w else w\<lparr>STARTING_BALANCE := init_balance\<rparr>);
             (now, w1) = utcnow e w0;
             new_id = Suc (profit_tracking_seq w1)
         in w1\<lparr>profit_tracking := profit_tracking w1 @
                   [\<lparr>pt_id = new_id, pt_timestamp = now, pt_current_balance = init_balance,
                     pt_profit_usdt = 0, pt_profit_percent = 0, pt_daily_profit = 0,
                     pt_weekly_profit = 0, pt_monthly_profit = 0\<rparr>],
               profit_tracking_seq := new_id\<rparr>)
      else w)"

section \<open>Opening and closing trades\<close>

text \<open>\<open>create_open_trade\<close> (lines 325 to 342): the id returned is the new row's.\<close>

definition create_open_trade ::
  "env \<Rightarrow> string \<Rightarrow> string \<Rightarrow> string \<Rightarrow> rat \<Rightarrow> rat \<Rightarrow> world \<Rightarrow> nat option \<times> world" where
  "create_open_trade e symbol market_type side entry_price quantity w =
     (let (timestamp, w1) = utcnow e w;
          trade_id = Suc (open_trades_seq w1)
      in (Some trade_id,
          w1\<lparr>open_trades := open_trades w1 @
                [\<lparr>ot_id = trade_id, ot_symbol = symbol, ot_market_type = market_type,
                  ot_side = side, ot_entry_price = entry_price, ot_quantity = quantity,
                  ot_timestamp_open = timestamp, ot_close_price = None,
                  ot_timestamp_close = None, ot_profit_usdt = 0, ot_closed = False\<rparr>],
             open_trades_seq := trade_id\<rparr>))"

text \<open>The row \<open>WHERE id=%s AND closed=FALSE\<close>.\<close>

definition open_row :: "nat \<Rightarrow> world \<Rightarrow> open_trade option" where
  "open_row trade_id w = find (\<lambda>r. ot_id r = trade_id \<and> \<not> ot_closed r) (open_trades w)"

text \<open>
  The branches of lines 364 to 440 choose the trade type handed to \<open>simulate_trade\<close>,
  the exit price and the two fee rates; \<open>None\<close> is the final \<open>else: return\<close>.
\<close>

definition close_plan ::
  "string \<Rightarrow> string \<Rightarrow> rat \<Rightarrow> rat \<Rightarrow> (string \<times> rat \<times> rat \<times> rat) option" where
  "close_plan market_type side spot_price futures_price =
     (if market_type = ''MARGIN'' \<and> side = ''LONG''
        then Some (''MARGIN_LONG'', spot_price, MARGIN_FEE, MARGIN_FEE)
      else if market_type = ''MARGIN'' \<and> side = ''SHORT''
        then Some (''SPOT_SHORT'', spot_price, MARGIN_FEE, MARGIN_FEE)
      else if market_type = ''FUTURES''
        then Some (''FUTURES_'' @ side, futures_price, FUTURES_FEE, FUTURES_FEE)
      else None)"

text \<open>What the same branches send to the exchange when \<open>SIMULATION\<close> is off.\<close>

definition sweep_isolated :: "env \<Rightarrow> string \<Rightarrow> gateway_call list" where
  "sweep_isolated e symbol =
     (case isolated_free_usdt e symbol of
        Some free_usdt \<Rightarrow>
          if 0 < free_usdt then [TransferIsolatedMarginToSpot symbol ''USDT'' free_usdt] else []
      | None \<Rightarrow> [])"

text \<open>\<open>s.replace(pat, "")\<close> for a pattern that is not empty: every occurrence, left to
  right, goes.\<close>

function str_remove :: "string \<Rightarrow> string \<Rightarrow> string" where
  "str_remove pat [] = []"
| "str_remove pat (c # cs) =
     (if pat \<noteq> [] \<and> take (length pat) (c # cs) = pat
      then str_remove pat (drop (length pat) (c # cs))
      else c # str_remove pat cs)"
  by pat_completeness auto
termination
  by (relation "measure (\<lambda>(pat, s). length s)") (auto simp: neq_Nil_conv)

definition base_asset_of :: "string \<Rightarrow> string" where
  "base_asset_of symbol = str_remove ''USDT'' symbol"

definition close_legs :: "env \<Rightarrow> string \<Rightarrow> string \<Rightarrow> string \<Rightarrow> rat \<Rightarrow> gateway_call list" where
  "close_legs e symbol market_type side quantity =
     (if market_type = ''MARGIN'' \<and> side = ''LONG''
        then CreateMarginOrder symbol ''SELL'' quantity # sweep_isolated e symbol
      else if market_type = ''MARGIN'' \<and> side = ''SHORT''
        then [CreateMarginOrder symbol ''BUY'' quantity,
              RepayMarginLoan symbol (base_asset_of symbol) quantity] @ sweep_isolated e symbol
      else if market_type = ''FUTURES''
        then (if side = ''LONG'' then FuturesCreateOrder symbol ''SELL'' quantity
              else FuturesCreateOrder symbol ''BUY'' quantity) #
             (if 0 < get_real_futures_usdt_balance e
              then [TransferFuturesToSpot ''USDT'' (get_real_futures_usdt_balance e)] else [])
      else [])"

text \<open>
  Lines 442 to 454 of \<open>close_trade\<close>: compute the profit, update the row of that id,
  then hand the profit to the ledger.
\<close>

definition mark_closed :: "nat \<Rightarrow> rat \<Rightarrow> rat \<Rightarrow> rat \<Rightarrow> open_trade list \<Rightarrow> open_trade list" where
  "mark_closed trade_id exit_price timestamp_close profit rows =
     map (\<lambda>r. if ot_id r = trade_id
               then r\<lparr>ot_close_price := Some exit_price,
                      ot_timestamp_close := Some timestamp_close,
                      ot_profit_usdt := profit, ot_closed := True\<rparr>
               else r) rows"

definition record_close ::
  "env \<Rightarrow> nat \<Rightarrow> open_trade \<Rightarrow> string \<times> rat \<times> rat \<times> rat \<Rightarrow> world \<Rightarrow> world" where
  "record_close e trade_id row plan w =
     (case plan of (trade_type, exit_price, entry_fee, exit_fee) \<Rightarrow>
        (let profit = simulate_trade (Some (ot_entry_price row)) (Some exit_price)
                        (ot_quantity row) entry_fee exit_fee trade_type;
             (timestamp_close, w1) = utcnow e w;
             w2 = w1\<lparr>open_trades :=
                       mark_closed trade_id exit_price timestamp_close profit (open_trades w1)\<rparr>
         in update_profit_tracking e profit w2))"

text \<open>
  \<open>close_trade\<close> (lines 344 to 459). Its \<open>try\<close> catches whatever \<open>fetch_prices\<close>
  lets through, so the caller gets the state back and nothing else.
\<close>

definition close_trade :: "env \<Rightarrow> nat \<Rightarrow> world \<Rightarrow> world" where
  "close_trade e trade_id w =
     (case open_row trade_id w of
        None \<Rightarrow> w
      | Some row \<Rightarrow>
          (case fetch_prices e (ot_symbol row) w of
             (Inl ex, w1) \<Rightarrow> w1
           | (Inr None, w1) \<Rightarrow> w1
           | (Inr (Some (spot_price, futures_price)), w1) \<Rightarrow>
               (case close_plan (ot_market_type row) (ot_side row) spot_price futures_price of
                  None \<Rightarrow> w1
                | Some plan \<Rightarrow>
                    (let w2 = (if \<not> SIMULATION
                               then w1\<lparr>gateway_log := gateway_log w1 @
                                         close_legs e (ot_symbol row) (ot_market_type row)
                                           (ot_side row) (ot_quantity row)\<rparr>
                               else w1)
                     in record_close e trade_id row plan w2))))"

section \<open>The close check\<close>

definition has_open_position :: "string \<Rightarrow> world \<Rightarrow> bool" where
  "has_open_position symbol w =
     (find (\<lambda>r. ot_symbol r = symbol \<and> \<not> ot_closed r) (open_trades w) \<noteq> None)"

text \<open>
  One turn of the loop of \<open>check_open_positions\<close> (lines 561 to 590), for one row of
  the result of the first \<open>SELECT\<close>. An exception leaves the loop: the division by a
  zero spot price, an exception escaping \<open>fetch_prices\<close>, the unpacking of a row that
  is not there.
\<close>

definition check_position :: "env \<Rightarrow> nat \<times> string \<times> rat \<Rightarrow> world \<Rightarrow> unit result \<times> world" where
  "check_position e t w =
     (case t of (trade_id, symbol, opened_at) \<Rightarrow>
        (let (now, w1) = utcnow e w;
             hold_time = now - opened_at
         in if MAX_TRADE_DURATION < hold_time then (Inr (), close_trade e trade_id w1)
            else
              (case fetch_prices e symbol w1 of
                 (Inl ex, w2) \<Rightarrow> (Inl ex, w2)
               | (Inr None, w2) \<Rightarrow> (Inr (), w2)
               | (Inr (Some (spot_price, futures_price)), w2) \<Rightarrow>
                   if spot_price = 0 then (Inl ZeroDivisionError, w2)
                   else
                     (let spread = futures_price - spot_price;
                          spread_percent = (spread / spot_price) * 100
                      in case open_row trade_id w2 of
                           None \<Rightarrow> (Inl TypeError, w2)
                         | Some row \<Rightarrow>
                             if ot_market_type row = ''MARGIN'' \<and> ot_side row = ''LONG'' then
                               (if spread_percent \<le> 0 then (Inr (), close_trade e trade_id w2)
                                else (Inr (), w2))
                             else if ot_market_type row = ''MARGIN'' \<and> ot_side row = ''SHORT'' then
                               (if 0 \<le> spread_percent then (Inr (), close_trade e trade_id w2)
                                else (Inr (), w2))
                             else (Inr (), w2)))))"

fun check_positions_loop :: "env \<Rightarrow> (nat \<times> string \<times> rat) list \<Rightarrow> world \<Rightarrow> unit result \<times> world" where
  "check_positions_loop e [] w = (Inr (), w)"
| "check_positions_loop e (t # ts) w =
     (case check_position e t w of
        (Inl ex, w1) \<Rightarrow> (Inl ex, w1)
      | (Inr _, w1) \<Rightarrow> check_positions_loop e ts w1)"

definition select_open :: "world \<Rightarrow> (nat \<times> string \<times> rat) list" where
  "select_open w =
     map (\<lambda>r. (ot_id r, ot_symbol r, ot_timestamp_open r))
       (filter (\<lambda>r. \<not> ot_closed r) (open_trades w))"

text \<open>\<open>check_open_positions\<close> (lines 547 to 593): the \<open>except\<close> swallows the exception.\<close>

definition check_open_positions :: "env \<Rightarrow> world \<Rightarrow> world" where
  "check_open_positions e w = snd (check_positions_loop e (select_open w) w)"

section \<open>The evaluation of one symbol\<close>

text \<open>Lines 612 to 619 of \<open>analyze_and_store\<close>: the spread and the action string.\<close>

definition spread_percent_of :: "rat \<Rightarrow> rat \<Rightarrow> rat" where
  "spread_percent_of spot_price futures_price =
     (let spread = futures_price - spot_price in (spread / spot_price) * 100)"

definition action_of :: "rat \<Rightarrow> rat \<Rightarrow> string" where
  "action_of spread_percent threshold =
     (if threshold < spread_percent then ''BUY_MARGIN_SHORT''
      else if spread_percent < - threshold then ''BUY_FUTURES''
      else ''HOLD'')"

text \<open>The orders of the two opening branches, sent only when \<open>SIMULATION\<close> is off.\<close>

definition open_legs_long :: "string \<Rightarrow> rat \<Rightarrow> rat \<Rightarrow> gateway_call list" where
  "open_legs_long symbol quantity spot_price =
     [TransferSpotToIsolatedMargin symbol ''USDT'' (quantity * spot_price),
      CreateMarginOrder symbol ''BUY'' quantity,
      FuturesCreateOrder symbol ''SELL'' quantity]"

definition open_legs_short :: "string \<Rightarrow> rat \<Rightarrow> rat \<Rightarrow> gateway_call list" where
  "open_legs_short symbol quantity spot_price =
     [TransferSpotToIsolatedMargin symbol ''USDT'' (quantity * spot_price),
      CreateMarginLoan symbol (base_asset_of symbol) quantity,
      CreateMarginOrder symbol ''SELL'' quantity,
      FuturesCreateOrder symbol ''BUY'' quantity]"

text \<open>
  Lines 621 to 677: the two branches on the action string. The result is
  \<open>open_trade_id\<close>. \<open>has_open_position\<close> is consulted in one place only, the
  condition of the live orders.
\<close>

definition open_position ::
  "env \<Rightarrow> string \<Rightarrow> string \<Rightarrow> rat \<Rightarrow> world \<Rightarrow> nat option result \<times> world" where
  "open_position e symbol action spot_price w =
     (if action = ''BUY_MARGIN_LONG'' then
        (case calculate_position_size e symbol spot_price ''MARGIN'' w of
           Inl ex \<Rightarrow> (Inl ex, w)
         | Inr quantity \<Rightarrow>
             if 0 < quantity then
               (let w1 = (if \<not> SIMULATION \<and> has_open_position symbol w
                          then w\<lparr>gateway_log := gateway_log w @
                                    open_legs_long symbol quantity spot_price\<rparr>
                          else w);
                    (open_trade_id, w2) =
                      create_open_trade e symbol ''MARGIN'' ''LONG'' spot_price quantity w1
                in (Inr open_trade_id, w2))
             else (Inr None, w))
      else if action = ''BUY_FUTURES'' then
        (case calculate_position_size e symbol spot_price ''MARGIN'' w of
           Inl ex \<Rightarrow> (Inl ex, w)
         | Inr quantity \<Rightarrow>
             if 0 < quantity then
               (let w1 = (if \<not> SIMULATION \<and> has_open_position symbol w
                          then w\<lparr>gateway_log := gateway_log w @
                                    open_legs_short symbol quantity spot_price\<rparr>
                          else w);
                    (open_trade_id, w2) =
                      create_open_trade e symbol ''MARGIN'' ''SHORT'' spot_price quantity w1
                in (Inr open_trade_id, w2))
             else (Inr None, w))
      else (Inr None, w))"

text \<open>
  Lines 679 to 698: \<open>INSERT ... ON CONFLICT (symbol) DO UPDATE\<close>. The update leaves
  the id and \<open>profit_usdt\<close> of the row as they were.
\<close>

definition upsert_opportunity :: "opportunity \<Rightarrow> world \<Rightarrow> world" where
  "upsert_opportunity row w =
     (let new_id = Suc (arbitrage_opportunities_seq w);
          rows = arbitrage_opportunities w
      in case find (\<lambda>r. ao_symbol r = ao_symbol row) rows of
           Some _ \<Rightarrow>
             w\<lparr>arbitrage_opportunities :=
                  map (\<lambda>r. if ao_symbol r = ao_symbol row
                            then row\<lparr>ao_id := ao_id r, ao_profit_usdt := ao_profit_usdt r\<rparr>
                            else r) rows,
               arbitrage_opportunities_seq := new_id\<rparr>
         | None \<Rightarrow>
             w\<lparr>arbitrage_opportunities := rows @ [row\<lparr>ao_id := new_id\<rparr>],
               arbitrage_opportunities_seq := new_id\<rparr>)"

text \<open>
  \<open>analyze_and_store\<close> (lines 595 to 701). Nothing here catches the division by a zero
  spot price or an exception out of \<open>fetch_prices\<close>: they reach \<open>main_loop\<close>.
\<close>

definition analyze_and_store :: "env \<Rightarrow> string \<Rightarrow> rat \<Rightarrow> world \<Rightarrow> unit result \<times> world" where
  "analyze_and_store e symbol threshold w =
     (case fetch_prices e symbol w of
        (Inl ex, w1) \<Rightarrow> (Inl ex, w1)
      | (Inr None, w1) \<Rightarrow> (Inr (), w1)
      | (Inr (Some (spot_price, futures_price)), w1) \<Rightarrow>
          if spot_price = 0 then (Inl ZeroDivisionError, w1)
          else
            (let spread_percent = spread_percent_of spot_price futures_price;
                 action = action_of spread_percent threshold
             in case open_position e symbol action spot_price w1 of
                  (Inl ex, w2) \<Rightarrow> (Inl ex, w2)
                | (Inr open_trade_id, w2) \<Rightarrow>
                    (let (now, w3) = utcnow e w2;
                         w4 = upsert_opportunity
                                \<lparr>ao_id = 0, ao_timestamp = now, ao_symbol = symbol,
                                 ao_spot_price = spot_price, ao_futures_price = futures_price,
                                 ao_spread_percent = spread_percent, ao_action = action,
                                 ao_trade_executed = (action \<noteq> ''HOLD''),
                                 ao_profit_usdt = 0, ao_open_trade_id = open_trade_id\<rparr> w3
                     in (Inr (), check_open_positions e w4))))"

section \<open>One cycle of main_loop\<close>

text \<open>
  Lines 731 to 738: every symbol in turn, an exception of one symbol caught and the
  loop going on, then the ledger update with a zero change.
\<close>

definition run_cycle :: "env \<Rightarrow> string list \<Rightarrow> world \<Rightarrow> world" where
  "run_cycle e symbols w =
     update_profit_tracking e 0
       (fold (\<lambda>sym w'. snd (analyze_and_store e sym SPREAD w')) symbols w)"

text \<open>The state after \<open>init_db\<close> on an empty database.\<close>

definition init_world :: world where
  "init_world =
     \<lparr>open_trades = [], open_trades_seq = 0,
      arbitrage_opportunities = [], arbitrage_opportunities_seq = 0,
      profit_tracking = [], profit_tracking_seq = 0,
      STARTING_BALANCE = STARTING_BALANCE_init,
      clock_reads = 0, fetches = 0, gateway_log = []\<rparr>"

text \<open>The number of rows of \<open>open_trades\<close> for a symbol that are not closed.\<close>

definition open_count :: "string \<Rightarrow> world \<Rightarrow> nat" where
  "open_count symbol w =
     length (filter (\<lambda>r. ot_symbol r = symbol \<and> \<not> ot_closed r) (open_trades w))"

section \<open>Concrete runs\<close>

text \<open>
  An exchange that always answers with the same two prices, knows no lot-size filter
  (so the step is the fallback 0.001), and a clock that advances one second between
  two readings.
\<close>

definition const_env :: "rat \<Rightarrow> rat \<Rightarrow> env" where
  "const_env spot_price futures_price =
     \<lparr>utcnow_at = (\<lambda>k. of_nat k),
      spot_ticker_call = (\<lambda>n symbol k. Returns (Some spot_price)),
      futures_ticker_call = (\<lambda>n symbol k. Returns (Some futures_price)),
      lot_step = (\<lambda>symbol market_type. None),
      spot_free_usdt = None, futures_withdraw_usdt = None,
      isolated_free_usdt = (\<lambda>symbol. None)\<rparr>"

text \<open>An exchange whose ticker calls all time out, read at second 5000.\<close>

definition down_env :: env where
  "down_env =
     \<lparr>utcnow_at = (\<lambda>k. 5000),
      spot_ticker_call = (\<lambda>n symbol k. Raises TimeoutError),
      futures_ticker_call = (\<lambda>n symbol k. Raises TimeoutError),
      lot_step = (\<lambda>symbol market_type. None),
      spot_free_usdt = None, futures_withdraw_usdt = None,
      isolated_free_usdt = (\<lambda>symbol. None)\<rparr>"

text \<open>The state \<open>main_loop\<close> starts its cycles from, on an empty database.\<close>

definition started :: "env \<Rightarrow> world" where
  "started e = initialize_balance e init_world"

text \<open>A store holding one open trade, opened at second 0 at price 100, quantity 1.\<close>

definition one_trade_world :: "string \<Rightarrow> string \<Rightarrow> world" where
  "one_trade_world market_type side =
     init_world
       \<lparr>open_trades :=
          [\<lparr>ot_id = 1, ot_symbol = ''BTCUSDT'', ot_market_type = market_type,
            ot_side = side, ot_entry_price = 100, ot_quantity = 1,
            ot_timestamp_open = 0, ot_close_price = None,
            ot_timestamp_close = None, ot_profit_usdt = 0, ot_closed = False\<rparr>],
        open_trades_seq := 1\<rparr>"


section \<open>The retry wrapper\<close>

lemma attempts_unfold: "[0..<max_retries] = [0, 1, 2]"
  by (simp add: max_retries_def upt_rec)

lemma powers_upto:
  "map (\<lambda>j. 2 ^ j) [0..<0] = ([] :: nat list)"
  "map (\<lambda>j. 2 ^ j) [0..<1] = [1 :: nat]"
  "map (\<lambda>j. 2 ^ j) [0..<2] = [1, 2 :: nat]"
  by (simp_all add: upt_rec numeral_2_eq_2)

lemma safe_api_call_stops:
  assumes k: "k < 3"
    and before: "\<forall>j<k. \<exists>ex. func j = Raises ex \<and> is_transient ex"
    and stop: "case func k of
                 Returns v \<Rightarrow> out = Inr (Some v)
               | Raises ex \<Rightarrow> \<not> is_transient ex \<and> out = Inl ex"
  shows "api_result (safe_api_call func) = out
       \<and> api_invocations (safe_api_call func) = Suc k
       \<and> api_sleeps (safe_api_call func) = map (\<lambda>j. 2 ^ j) [0..<k]"
proof -
  from k consider "k = 0" | "k = 1" | "k = 2" by linarith
  then show ?thesis
  proof cases
    case 1
    then show ?thesis
      using stop unfolding safe_api_call_def attempts_unfold
      by (auto simp: powers_upto split: outcome.splits)
  next
    case 2
    then obtain e0 where "func 0 = Raises e0" "is_transient e0"
      using before by auto
    then show ?thesis
      using stop 2 unfolding safe_api_call_def attempts_unfold
      by (auto simp: powers_upto split: outcome.splits)
  next
    case 3
    then obtain e0 e1 where "func 0 = Raises e0" "is_transient e0"
      "func 1 = Raises e1" "is_transient e1"
      using before by (metis One_nat_def less_2_cases_iff zero_less_numeral)
    then show ?thesis
      using stop 3 unfolding safe_api_call_def attempts_unfold
      by (auto simp: powers_upto split: outcome.splits)
  qed
qed

text \<open>
  Claim C9. \<open>safe_api_call\<close> invokes the wrapped operation at most three times.
  An invocation after the first is made only when the one before it raised one of the
  three caught exceptions, and each caught failure is followed by a sleep: the delay
  after attempt \<open>k\<close> is \<open>2 ^ k\<close> seconds, so 1, 2, 4. When all three attempts
  raise a caught exception, the caller gets \<open>None\<close> after the delays 1, 2, 4, and a
  caught exception never reaches the caller. When attempt \<open>k\<close> is the first not to
  raise a caught exception, it is the last invocation, the delays slept are those of
  the \<open>k\<close> attempts before it, and the caller gets its value, or its exception if it
  raised one that is not caught.
\<close>

theorem safe_api_call_bounded_retry:
  "api_invocations (safe_api_call func) \<le> 3
   \<and> (\<forall>k. Suc k < api_invocations (safe_api_call func) \<longrightarrow>
          (\<exists>ex. func k = Raises ex \<and> is_transient ex))
   \<and> api_sleeps (safe_api_call func) =
       map (\<lambda>k. 2 ^ k) [0..<length (api_sleeps (safe_api_call func))]
   \<and> ((\<forall>k<3. \<exists>ex. func k = Raises ex \<and> is_transient ex) \<longrightarrow>
        api_result (safe_api_call func) = Inr None
        \<and> api_invocations (safe_api_call func) = 3
        \<and> api_sleeps (safe_api_call func) = [1, 2, 4])
   \<and> (\<forall>ex. api_result (safe_api_call func) = Inl ex \<longrightarrow> \<not> is_transient ex)
   \<and> (\<forall>k v. k < 3 \<and> (\<forall>j<k. \<exists>ex. func j = Raises ex \<and> is_transient ex)
          \<and> func k = Returns v \<longrightarrow>
        api_result (safe_api_call func) = Inr (Some v)
        \<and> api_invocations (safe_api_call func) = Suc k
        \<and> api_sleeps (safe_api_call func) = map (\<lambda>j. 2 ^ j) [0..<k])
   \<and> (\<forall>k ex. k < 3 \<and> (\<forall>j<k. \<exists>ex'. func j = Raises ex' \<and> is_transient ex')
          \<and> func k = Raises ex \<and> \<not> is_transient ex \<longrightarrow>
        api_result (safe_api_call func) = Inl ex
        \<and> api_invocations (safe_api_call func) = Suc k
        \<and> api_sleeps (safe_api_call func) = map (\<lambda>j. 2 ^ j) [0..<k])"
proof -
  have general: "api_invocations (safe_api_call func) \<le> 3
   \<and> (\<forall>k. Suc k < api_invocations (safe_api_call func) \<longrightarrow>
          (\<exists>ex. func k = Raises ex \<and> is_transient ex))
   \<and> api_sleeps (safe_api_call func) =
       map (\<lambda>k. 2 ^ k) [0..<length (api_sleeps (safe_api_call func))]
   \<and> ((\<forall>k<3. \<exists>ex. func k = Raises ex \<and> is_transient ex) \<longrightarrow>
        api_result (safe_api_call func) = Inr None
        \<and> api_invocations (safe_api_call func) = 3
        \<and> api_sleeps (safe_api_call func) = [1, 2, 4])
   \<and> (\<forall>ex. api_result (safe_api_call func) = Inl ex \<longrightarrow> \<not> is_transient ex)"
    unfolding safe_api_call_def attempts_unfold
    by (cases "func 0"; cases "func 1"; cases "func 2")
       (auto simp: less_Suc_eq upt_rec numeral_2_eq_2 numeral_3_eq_3)
  have returned: "\<forall>k v. k < 3 \<and> (\<forall>j<k. \<exists>ex. func j = Raises ex \<and> is_transient ex)
          \<and> func k = Returns v \<longrightarrow>
        api_result (safe_api_call func) = Inr (Some v)
        \<and> api_invocations (safe_api_call func) = Suc k
        \<and> api_sleeps (safe_api_call func) = map (\<lambda>j. 2 ^ j) [0..<k]"
  proof (intro allI impI)
    fix k v
    assume "k < 3 \<and> (\<forall>j<k. \<exists>ex. func j = Raises ex \<and> is_transient ex) \<and> func k = Returns v"
    then show "api_result (safe_api_call func) = Inr (Some v)
        \<and> api_invocations (safe_api_call func) = Suc k
        \<and> api_sleeps (safe_api_call func) = map (\<lambda>j. 2 ^ j) [0..<k]"
      by (intro safe_api_call_stops) simp_all
  qed
  have escaped: "\<forall>k ex. k < 3 \<and> (\<forall>j<k. \<exists>ex'. func j = Raises ex' \<and> is_transient ex')
          \<and> func k = Raises ex \<and> \<not> is_transient ex \<longrightarrow>
        api_result (safe_api_call func) = Inl ex
        \<and> api_invocations (safe_api_call func) = Suc k
        \<and> api_sleeps (safe_api_call func) = map (\<lambda>j. 2 ^ j) [0..<k]"
  proof (intro allI impI)
    fix k ex
    assume "k < 3 \<and> (\<forall>j<k. \<exists>ex'. func j = Raises ex' \<and> is_transient ex')
          \<and> func k = Raises ex \<and> \<not> is_transient ex"
    then show "api_result (safe_api_call func) = Inl ex
        \<and> api_invocations (safe_api_call func) = Suc k
        \<and> api_sleeps (safe_api_call func) = map (\<lambda>j. 2 ^ j) [0..<k]"
      by (intro safe_api_call_stops) simp_all
  qed
  from general have g1: "api_invocations (safe_api_call func) \<le> 3"
    and g2: "\<forall>k. Suc k < api_invocations (safe_api_call func) \<longrightarrow>
          (\<exists>ex. func k = Raises ex \<and> is_transient ex)"
    and g3: "api_sleeps (safe_api_call func) =
       map (\<lambda>k. 2 ^ k) [0..<length (api_sleeps (safe_api_call func))]"
    and g4: "(\<forall>k<3. \<exists>ex. func k = Raises ex \<and> is_transient ex) \<longrightarrow>
        api_result (safe_api_call func) = Inr None
        \<and> api_invocations (safe_api_call func) = 3
        \<and> api_sleeps (safe_api_call func) = [1, 2, 4]"
    and g5: "\<forall>ex. api_result (safe_api_call func) = Inl ex \<longrightarrow> \<not> is_transient ex"
    by (rule conjunct1, rule conjunct2 [THEN conjunct1],
        rule conjunct2 [THEN conjunct2, THEN conjunct1],
        rule conjunct2 [THEN conjunct2, THEN conjunct2, THEN conjunct1],
        rule conjunct2 [THEN conjunct2, THEN conjunct2, THEN conjunct2])
  show ?thesis
    apply (intro conjI)
          apply (rule g1)
         apply (rule g2)
        apply (rule g3)
       apply (rule g4)
      apply (rule g5)
     apply (rule returned)
    apply (rule escaped)
    done
qed

theorem safe_api_call_bounded_retry_witness:
  "api_result (safe_api_call (\<lambda>k. Raises TimeoutError :: ticker outcome)) = Inr None
   \<and> api_invocations (safe_api_call (\<lambda>k. Raises TimeoutError :: ticker outcome)) = 3
   \<and> api_sleeps (safe_api_call (\<lambda>k. Raises TimeoutError :: ticker outcome)) = [1, 2, 4]
   \<and> api_result (safe_api_call
         (\<lambda>k. if k < 2 then Raises ConnectionError else Returns (Some 7) :: ticker outcome))
        = Inr (Some (Some 7))
   \<and> api_sleeps (safe_api_call
         (\<lambda>k. if k < 2 then Raises ConnectionError else Returns (Some 7) :: ticker outcome))
        = [1, 2]"
proof -
  let ?down = "\<lambda>k::nat. Raises TimeoutError :: ticker outcome"
  let ?late = "\<lambda>k::nat. if k < 2 then Raises ConnectionError
                        else Returns (Some 7) :: ticker outcome"
  have a: "api_result (safe_api_call ?down) = Inr None
   \<and> api_invocations (safe_api_call ?down) = 3
   \<and> api_sleeps (safe_api_call ?down) = [1, 2, 4]"
    using safe_api_call_bounded_retry [of ?down] by simp
  note late = safe_api_call_bounded_retry [of ?late]
  note returned = late [THEN conjunct2, THEN conjunct2, THEN conjunct2, THEN conjunct2,
      THEN conjunct2, THEN conjunct1, rule_format, of 2 "Some 7"]
  have pre: "2 < (3::nat) \<and> (\<forall>j<2. \<exists>ex. ?late j = Raises ex \<and> is_transient ex)
      \<and> ?late 2 = Returns (Some 7)"
    by simp
  have b: "api_result (safe_api_call ?late) = Inr (Some (Some 7))
      \<and> api_sleeps (safe_api_call ?late) = map (\<lambda>j. 2 ^ j) [0..<2]"
    using returned [OF pre] by simp
  show ?thesis using a b by (simp add: powers_upto)
qed

section \<open>The profit computation\<close>

text \<open>
  Claim C10. \<open>simulate_trade\<close> returns a number on every input: 0 when the entry
  price or the exit price is \<open>None\<close>, 0 when the trade type is none of
  \<open>SPOT_LONG\<close>, \<open>SPOT_SHORT\<close>, \<open>FUTURES_LONG\<close>, \<open>FUTURES_SHORT\<close>, and so 0
  for \<open>MARGIN_LONG\<close>, which is the trade type \<open>close_trade\<close> chooses for a margin
  long position.
\<close>

theorem simulate_trade_total_zero:
  "simulate_trade None exit_price quantity entry_fee exit_fee trade_type = 0
   \<and> simulate_trade entry_price None quantity entry_fee exit_fee trade_type = 0
   \<and> (trade_type \<noteq> ''SPOT_LONG'' \<and> trade_type \<noteq> ''SPOT_SHORT''
        \<and> trade_type \<noteq> ''FUTURES_LONG'' \<and> trade_type \<noteq> ''FUTURES_SHORT'' \<longrightarrow>
        simulate_trade entry_price exit_price quantity entry_fee exit_fee trade_type = 0)
   \<and> simulate_trade entry_price exit_price quantity entry_fee exit_fee ''MARGIN_LONG'' = 0
   \<and> map_option fst (close_plan ''MARGIN'' ''LONG'' spot_price futures_price)
       = Some ''MARGIN_LONG''"
  by (simp add: simulate_trade_def close_plan_def split: option.splits)

theorem simulate_trade_total_zero_witness:
  "simulate_trade (Some 100) (Some 110) 1 (1 / 1000) (1 / 1000) ''MARGIN_SHORT'' = 0
   \<and> simulate_trade None (Some 110) 1 (1 / 1000) (1 / 1000) ''SPOT_LONG'' = 0"
  using simulate_trade_total_zero
    [of "Some 110" 1 "1 / 1000" "1 / 1000" "''MARGIN_SHORT''" "Some 100" 100 110]
    simulate_trade_total_zero
    [of "Some 110" 1 "1 / 1000" "1 / 1000" "''SPOT_LONG''" "Some 100" 100 110]
  by simp

text \<open>
  Claim C3. A trade closed by \<open>close_trade\<close> whose cash leg is long should record the
  profit \<open>exit * quantity * (1 - fee) - entry * quantity * (1 + fee)\<close>. For a row of
  market type \<open>MARGIN\<close> and side \<open>LONG\<close>, entered at 100 and closed at a spot price
  of 110 with quantity 1, that is 9.8425 at the margin fee rate; \<open>close_trade\<close> closes
  the row and records the profit 0, because it passes the trade type \<open>MARGIN_LONG\<close>,
  which \<open>simulate_trade\<close> does not know. With the fees 0.001 of the claim's example,
  \<open>simulate_trade\<close> gives 0 for \<open>MARGIN_LONG\<close> and 9.79 for \<open>SPOT_LONG\<close>.
\<close>

theorem close_trade_margin_long_profit_zero:
  "map (\<lambda>r. (ot_closed r, ot_close_price r, ot_profit_usdt r))
     (open_trades (close_trade (const_env 110 110) 1 (one_trade_world ''MARGIN'' ''LONG'')))
     = [(True, Some 110, 0)]
   \<and> 110 * 1 * (1 - MARGIN_FEE) - 100 * 1 * (1 + MARGIN_FEE) = 3937 / 400
   \<and> simulate_trade (Some 100) (Some 110) 1 (1 / 1000) (1 / 1000) ''MARGIN_LONG'' = 0
   \<and> simulate_trade (Some 100) (Some 110) 1 (1 / 1000) (1 / 1000) ''SPOT_LONG'' = 979 / 100"
  by code_simp

section \<open>The ledger\<close>

lemma upsert_snapshot_written:
  "\<exists>r \<in> set (profit_tracking (upsert_snapshot row w)).
      pt_current_balance r = pt_current_balance row
      \<and> pt_profit_usdt r = pt_profit_usdt row
      \<and> pt_profit_percent r = pt_profit_percent row
      \<and> pt_timestamp r = pt_timestamp row"
proof (cases "find (\<lambda>r. pt_current_balance r = pt_current_balance row) (profit_tracking w)")
  case None
  then show ?thesis by (simp add: upsert_snapshot_def Let_def)
next
  case (Some r0)
  then have "r0 \<in> set (profit_tracking w)" "pt_current_balance r0 = pt_current_balance row"
    by (auto simp: find_Some_iff)
  then have "row\<lparr>pt_id := pt_id r0\<rparr> \<in> set (profit_tracking (upsert_snapshot row w))"
    using Some by (force simp: upsert_snapshot_def Let_def)
  then show ?thesis by (rule rev_bexI) simp
qed

lemma upsert_snapshot_rows:
  "r \<in> set (profit_tracking (upsert_snapshot row w)) \<Longrightarrow>
     r \<in> set (profit_tracking w) \<or> pt_current_balance r = pt_current_balance row"
  by (auto simp: upsert_snapshot_def Let_def split: option.splits if_splits)

lemma update_profit_tracking_unfold:
  "update_profit_tracking e d w =
     upsert_snapshot
       \<lparr>pt_id = 0, pt_timestamp = utcnow_at e (clock_reads w),
        pt_current_balance = max 0 (last_balance_of w + d),
        pt_profit_usdt = max 0 (last_balance_of w + d) - STARTING_BALANCE w,
        pt_profit_percent =
          (if 0 < STARTING_BALANCE w
           then (max 0 (last_balance_of w + d) - STARTING_BALANCE w) / STARTING_BALANCE w * 100
           else 0),
        pt_daily_profit = get_period_profit (profit_tracking w)
           (utcnow_at e (clock_reads w)) (max 0 (last_balance_of w + d)) 1,
        pt_weekly_profit = get_period_profit (profit_tracking w)
           (utcnow_at e (clock_reads w)) (max 0 (last_balance_of w + d)) 7,
        pt_monthly_profit = get_period_profit (profit_tracking w)
           (utcnow_at e (clock_reads w)) (max 0 (last_balance_of w + d)) 30\<rparr>
       (w\<lparr>clock_reads := Suc (clock_reads w)\<rparr>)"
  by (simp add: update_profit_tracking_def utcnow_def Let_def)

text \<open>
  Claim C8. With \<open>b\<close> the balance of the latest snapshot (the starting balance when
  there is none) and \<open>d\<close> any profit change, \<open>update_profit_tracking\<close> writes a row
  whose balance is \<open>max 0 (b + d)\<close>, which is not negative, whose profit is that
  balance minus the starting balance, and whose profit percent is the profit divided by
  the starting balance times 100 when the starting balance is positive and 0 otherwise.
  Every row of the table afterwards is a row that was there or holds the new balance.
\<close>

theorem update_profit_tracking_floor:
  "0 \<le> max 0 (last_balance_of w + d)
   \<and> (\<exists>row \<in> set (profit_tracking (update_profit_tracking e d w)).
         pt_current_balance row = max 0 (last_balance_of w + d)
         \<and> pt_profit_usdt row = max 0 (last_balance_of w + d) - STARTING_BALANCE w
         \<and> pt_profit_percent row =
             (if 0 < STARTING_BALANCE w
              then (max 0 (last_balance_of w + d) - STARTING_BALANCE w)
                     / STARTING_BALANCE w * 100
              else 0))
   \<and> (\<forall>row \<in> set (profit_tracking (update_profit_tracking e d w)).
         row \<in> set (profit_tracking w)
         \<or> pt_current_balance row = max 0 (last_balance_of w + d))"
proof (intro conjI ballI)
  show "0 \<le> max 0 (last_balance_of w + d)" by simp
next
  show "\<exists>row \<in> set (profit_tracking (update_profit_tracking e d w)).
         pt_current_balance row = max 0 (last_balance_of w + d)
         \<and> pt_profit_usdt row = max 0 (last_balance_of w + d) - STARTING_BALANCE w
         \<and> pt_profit_percent row =
             (if 0 < STARTING_BALANCE w
              then (max 0 (last_balance_of w + d) - STARTING_BALANCE w)
                     / STARTING_BALANCE w * 100
              else 0)"
  proof -
    obtain row0 where eq: "update_profit_tracking e d w =
        upsert_snapshot row0 (w\<lparr>clock_reads := Suc (clock_reads w)\<rparr>)"
      and fields: "pt_current_balance row0 = max 0 (last_balance_of w + d)"
        "pt_profit_usdt row0 = max 0 (last_balance_of w + d) - STARTING_BALANCE w"
        "pt_profit_percent row0 =
           (if 0 < STARTING_BALANCE w
            then (max 0 (last_balance_of w + d) - STARTING_BALANCE w)
                   / STARTING_BALANCE w * 100
            else 0)"
      using update_profit_tracking_unfold [of e d w] by simp
    obtain r where "r \<in> set (profit_tracking (update_profit_tracking e d w))"
      "pt_current_balance r = pt_current_balance row0"
      "pt_profit_usdt r = pt_profit_usdt row0"
      "pt_profit_percent r = pt_profit_percent row0"
      unfolding eq using upsert_snapshot_written by blast
    then show ?thesis
      unfolding fields by (rule_tac x = r in bexI) auto
  qed
next
  fix row
  assume "row \<in> set (profit_tracking (update_profit_tracking e d w))"
  then show "row \<in> set (profit_tracking w)
         \<or> pt_current_balance row = max 0 (last_balance_of w + d)"
    unfolding update_profit_tracking_unfold
    by (drule_tac upsert_snapshot_rows) simp
qed

theorem update_profit_tracking_floor_witness:
  "\<exists>row \<in> set (profit_tracking
       (update_profit_tracking (const_env 100 100) (- 1000000000) (started (const_env 100 100)))).
      pt_current_balance row = 0 \<and> pt_profit_usdt row = - 1000 \<and> pt_profit_percent row = - 100"
proof -
  have b: "last_balance_of (started (const_env 100 100)) = 1000" by code_simp
  have s: "STARTING_BALANCE (started (const_env 100 100)) = 1000" by code_simp
  show ?thesis
    using update_profit_tracking_floor
      [of "started (const_env 100 100)" "- 1000000000" "const_env 100 100"]
    by (simp add: b s)
qed

text \<open>
  Claim C4. Every call of \<open>update_profit_tracking\<close> should append a snapshot and
  leave the earlier ones alone. On the ledger \<open>initialize_balance\<close> creates (one row,
  id 1, written at second 0, balance 1000) the call with a zero change, which is the call
  \<open>main_loop\<close> makes at the end of a cycle, appends nothing: the table still has one
  row, and that row, still id 1, now carries the timestamp of the call. After a change
  of 5 and then one of -5 the balance 1000 is written over row 1 again, and the latest
  balance by id, which the next call and the sizing read, is the 1005 of row 2.
\<close>

theorem update_profit_tracking_overwrites:
  "map (\<lambda>r. (pt_id r, pt_timestamp r, pt_current_balance r))
     (profit_tracking (started (const_env 100 100))) = [(1, 0, 1000)]
   \<and> map (\<lambda>r. (pt_id r, pt_timestamp r, pt_current_balance r))
       (profit_tracking
          (update_profit_tracking (const_env 100 100) 0 (started (const_env 100 100))))
       = [(1, 1, 1000)]
   \<and> map (\<lambda>r. (pt_id r, pt_timestamp r, pt_current_balance r))
       (profit_tracking (run_cycle (const_env 100 100) [] (started (const_env 100 100))))
       = [(1, 1, 1000)]
   \<and> map (\<lambda>r. (pt_id r, pt_timestamp r, pt_current_balance r))
       (profit_tracking
          (update_profit_tracking (const_env 100 100) (- 5)
             (update_profit_tracking (const_env 100 100) 5 (started (const_env 100 100)))))
       = [(1, 2, 1000), (2, 1, 1005)]
   \<and> last_balance_of
       (update_profit_tracking (const_env 100 100) (- 5)
          (update_profit_tracking (const_env 100 100) 5 (started (const_env 100 100))))
       = 1005"
  by code_simp

section \<open>Opening positions\<close>

lemma open_position_futures_rich:
  "threshold < spread_percent \<Longrightarrow>
     open_position e symbol (action_of spread_percent threshold) spot_price w = (Inr None, w)"
  by (simp add: open_position_def action_of_def)

text \<open>
  Claim C2. With threshold 0.03, spot 100 and futures 100.05 the spread percent is 0.05,
  above the threshold; no trade of the symbol is open and sizing gives the quantity 5.
  A position should open. \<open>analyze_and_store\<close> creates no row in \<open>open_trades\<close>:
  the action string it computes, \<open>BUY_MARGIN_SHORT\<close>, is not the string
  \<open>BUY_MARGIN_LONG\<close> its opening branch tests. The opportunity row records the action
  as executed, with no trade id.
\<close>

theorem analyze_and_store_futures_rich_opens_nothing:
  "spread_percent_of 100 (2001 / 20) = 1 / 20 \<and> SPREAD < 1 / 20
   \<and> \<not> has_open_position ''BTCUSDT'' (started (const_env 100 (2001 / 20)))
   \<and> calculate_position_size (const_env 100 (2001 / 20)) ''BTCUSDT'' 100 ''MARGIN''
        (started (const_env 100 (2001 / 20))) = Inr 5
   \<and> open_trades (snd (analyze_and_store (const_env 100 (2001 / 20)) ''BTCUSDT'' (3 / 100)
        (started (const_env 100 (2001 / 20))))) = []
   \<and> map (\<lambda>r. (ao_action r, ao_trade_executed r, ao_open_trade_id r))
       (arbitrage_opportunities (snd (analyze_and_store (const_env 100 (2001 / 20))
          ''BTCUSDT'' (3 / 100) (started (const_env 100 (2001 / 20))))))
       = [(''BUY_MARGIN_SHORT'', True, None)]"
  by code_simp

text \<open>
  Claim C1. No symbol should ever have two rows of \<open>open_trades\<close> that are not
  closed. From the state \<open>main_loop\<close> starts with, with spot 100 and futures 99.9 at
  every fetch (spread percent -0.1, below -0.03), the first evaluation of the symbol
  opens a trade, and the second, made while that trade is open, opens another: two rows
  of the symbol are open. The same after two cycles of \<open>main_loop\<close>.
\<close>

theorem analyze_and_store_opens_twice:
  "open_count ''BTCUSDT'' (started (const_env 100 (999 / 10))) = 0
   \<and> has_open_position ''BTCUSDT''
        (snd (analyze_and_store (const_env 100 (999 / 10)) ''BTCUSDT'' SPREAD
           (started (const_env 100 (999 / 10)))))
   \<and> open_count ''BTCUSDT''
        (snd (analyze_and_store (const_env 100 (999 / 10)) ''BTCUSDT'' SPREAD
           (started (const_env 100 (999 / 10))))) = 1
   \<and> open_count ''BTCUSDT''
        (snd (analyze_and_store (const_env 100 (999 / 10)) ''BTCUSDT'' SPREAD
           (snd (analyze_and_store (const_env 100 (999 / 10)) ''BTCUSDT'' SPREAD
              (started (const_env 100 (999 / 10))))))) = 2
   \<and> open_count ''BTCUSDT''
        (run_cycle (const_env 100 (999 / 10)) [''BTCUSDT'']
           (run_cycle (const_env 100 (999 / 10)) [''BTCUSDT'']
              (started (const_env 100 (999 / 10))))) = 2"
  by code_simp

section \<open>Spread and classification\<close>




lemma ao_upsert_snapshot [simp]:
  "arbitrage_opportunities (upsert_snapshot row w) = arbitrage_opportunities w"
  by (simp add: upsert_snapshot_def Let_def split: option.splits)

lemma ao_update_profit_tracking [simp]:
  "arbitrage_opportunities (update_profit_tracking e d w) = arbitrage_opportunities w"
  by (simp add: update_profit_tracking_unfold)

lemma ao_record_close [simp]:
  "arbitrage_opportunities (record_close e trade_id row plan w) = arbitrage_opportunities w"
  by (simp add: record_close_def utcnow_def Let_def split: prod.splits)

lemma ao_close_trade [simp]:
  "arbitrage_opportunities (close_trade e trade_id w) = arbitrage_opportunities w"
  by (simp add: close_trade_def fetch_prices_def Let_def
      split: option.splits prod.splits sum.splits)

lemma ao_check_position [simp]:
  "arbitrage_opportunities (snd (check_position e t w)) = arbitrage_opportunities w"
  by (simp add: check_position_def fetch_prices_def utcnow_def Let_def
      split: option.splits prod.splits sum.splits)

lemma ao_check_positions_loop [simp]:
  "arbitrage_opportunities (snd (check_positions_loop e ts w)) = arbitrage_opportunities w"
proof (induction ts arbitrary: w)
  case Nil
  show ?case by simp
next
  case (Cons t ts)
  obtain r w1 where step: "check_position e t w = (r, w1)" by (cases "check_position e t w")
  have "arbitrage_opportunities w1 = arbitrage_opportunities w"
    using ao_check_position [of e t w] step by simp
  then show ?case using step Cons.IH [of w1] by (cases r) simp_all
qed

lemma ao_check_open_positions [simp]:
  "arbitrage_opportunities (check_open_positions e w) = arbitrage_opportunities w"
  by (simp add: check_open_positions_def)






section \<open>Position sizing\<close>























section \<open>Closing positions\<close>


lemma ot_upsert_snapshot [simp]:
  "open_trades (upsert_snapshot row w) = open_trades w"
  by (simp add: upsert_snapshot_def Let_def split: option.splits)

lemma ot_update_profit_tracking [simp]:
  "open_trades (update_profit_tracking e d w) = open_trades w"
  by (simp add: update_profit_tracking_unfold)

lemma find_mark_closed_same:
  "find (\<lambda>r. ot_id r = trade_id \<and> \<not> ot_closed r) (mark_closed trade_id x t p rows) = None"
  by (induction rows) (auto simp: mark_closed_def)

lemma find_mark_closed_other:
  "other \<noteq> trade_id \<Longrightarrow>
     find (\<lambda>r. ot_id r = trade_id \<and> \<not> ot_closed r) (mark_closed other x t p rows)
       = find (\<lambda>r. ot_id r = trade_id \<and> \<not> ot_closed r) rows"
  by (induction rows) (auto simp: mark_closed_def)

lemma open_row_record_close:
  "open_row trade_id (record_close e trade_id row plan w) = None"
  by (simp add: open_row_def record_close_def utcnow_def Let_def find_mark_closed_same
      split: prod.splits)

lemma open_row_record_close_other:
  "other \<noteq> trade_id \<Longrightarrow>
     open_row trade_id (record_close e other row plan w) = open_row trade_id w"
  by (simp add: open_row_def record_close_def utcnow_def Let_def find_mark_closed_other
      split: prod.splits)

lemma close_trade_closes:
  assumes "open_row trade_id w = Some row"
    and "quote_at e (fetches w) (ot_symbol row) = Inr (Some (spot_price, futures_price))"
    and "close_plan (ot_market_type row) (ot_side row) spot_price futures_price = Some plan"
  shows "open_row trade_id (close_trade e trade_id w) = None"
  using assms
  by (simp add: close_trade_def fetch_prices_def SIMULATION_def open_row_record_close)

lemma close_trade_defers:
  assumes "open_row trade_id w = Some row"
    and "\<not> (\<exists>spot_price futures_price plan.
            quote_at e (fetches w) (ot_symbol row) = Inr (Some (spot_price, futures_price))
            \<and> close_plan (ot_market_type row) (ot_side row) spot_price futures_price = Some plan)"
  shows "open_trades (close_trade e trade_id w) = open_trades w"
  using assms
  by (auto simp: close_trade_def fetch_prices_def split: sum.splits option.splits prod.splits)

lemma close_trade_other:
  "other \<noteq> trade_id \<Longrightarrow> open_row trade_id (close_trade e other w) = open_row trade_id w"
  by (auto simp: close_trade_def fetch_prices_def open_row_record_close_other SIMULATION_def
      split: sum.splits option.splits prod.splits) (simp_all add: open_row_def)

lemma close_plan_known:
  "(\<exists>plan. close_plan market_type side spot_price futures_price = Some plan)
     \<longleftrightarrow> (market_type = ''MARGIN'' \<and> (side = ''LONG'' \<or> side = ''SHORT'') \<or> market_type = ''FUTURES'')"
  by (auto simp: close_plan_def)


lemma open_row_clock [simp]: "open_row trade_id (w\<lparr>clock_reads := n\<rparr>) = open_row trade_id w"
  by (simp add: open_row_def)

lemma open_row_fetches [simp]: "open_row trade_id (w\<lparr>fetches := n\<rparr>) = open_row trade_id w"
  by (simp add: open_row_def)

lemma check_position_effect:
  assumes row: "open_row trade_id w = Some row"
  shows
    "let now = utcnow_at e (clock_reads w);
         timeout = (MAX_TRADE_DURATION < now - ot_timestamp_open row);
         known = (ot_market_type row = ''MARGIN'' \<and> (ot_side row = ''LONG'' \<or> ot_side row = ''SHORT'')
                  \<or> ot_market_type row = ''FUTURES'');
         reversal = (\<exists>spot_price futures_price.
                       quote_at e (fetches w) (ot_symbol row) = Inr (Some (spot_price, futures_price))
                       \<and> spot_price \<noteq> 0
                       \<and> (ot_market_type row = ''MARGIN'' \<and> ot_side row = ''LONG''
                            \<and> (futures_price - spot_price) / spot_price * 100 \<le> 0
                          \<or> ot_market_type row = ''MARGIN'' \<and> ot_side row = ''SHORT''
                            \<and> 0 \<le> (futures_price - spot_price) / spot_price * 100));
         closes = (timeout \<and> known \<and> (\<exists>q. quote_at e (fetches w) (ot_symbol row) = Inr (Some q))
                   \<or> \<not> timeout \<and> reversal
                      \<and> (\<exists>q. quote_at e (Suc (fetches w)) (ot_symbol row) = Inr (Some q)));
         w' = snd (check_position e (trade_id, ot_symbol row, ot_timestamp_open row) w)
     in (closes \<longrightarrow> open_row trade_id w' = None)
      \<and> (\<not> closes \<longrightarrow> open_trades w' = open_trades w)"
proof -
  let ?sym = "ot_symbol row"
  let ?timeout = "MAX_TRADE_DURATION < utcnow_at e (clock_reads w) - ot_timestamp_open row"
  let ?known = "ot_market_type row = ''MARGIN'' \<and> (ot_side row = ''LONG'' \<or> ot_side row = ''SHORT'')
                  \<or> ot_market_type row = ''FUTURES''"
  let ?w' = "snd (check_position e (trade_id, ot_symbol row, ot_timestamp_open row) w)"
  define w1 where "w1 = w\<lparr>clock_reads := Suc (clock_reads w)\<rparr>"
  define w2 where "w2 = w1\<lparr>fetches := Suc (fetches w1)\<rparr>"
  have r1: "open_row trade_id w1 = Some row" and r2: "open_row trade_id w2 = Some row"
    using row by (simp_all add: w1_def w2_def)
  have f1: "fetches w1 = fetches w" and f2: "fetches w2 = Suc (fetches w)"
    by (simp_all add: w1_def w2_def)
  have o1: "open_trades w1 = open_trades w" and o2: "open_trades w2 = open_trades w"
    by (simp_all add: w1_def w2_def)
  have plan_iff: "(\<exists>plan. close_plan (ot_market_type row) (ot_side row) s f = Some plan) \<longleftrightarrow> ?known" for s f
    by (rule close_plan_known)
  show ?thesis
  proof (cases ?timeout)
    case True
    then have step: "?w' = close_trade e trade_id w1"
      by (simp add: check_position_def utcnow_def w1_def Let_def)
    show ?thesis
    proof (cases "?known \<and> (\<exists>q. quote_at e (fetches w) ?sym = Inr (Some q))")
      case yes: True
      then obtain s f where q: "quote_at e (fetches w1) ?sym = Inr (Some (s, f))"
        unfolding f1 by auto
      obtain plan where "close_plan (ot_market_type row) (ot_side row) s f = Some plan"
        using yes plan_iff by blast
      then have "open_row trade_id ?w' = None"
        unfolding step using close_trade_closes [OF r1 q] by simp
      then show ?thesis using True yes by (auto simp: Let_def)
    next
      case no: False
      then have "\<not> (\<exists>s f plan. quote_at e (fetches w1) ?sym = Inr (Some (s, f))
            \<and> close_plan (ot_market_type row) (ot_side row) s f = Some plan)"
        unfolding f1 using plan_iff by blast
      then have "open_trades ?w' = open_trades w"
        unfolding step using close_trade_defers [OF r1] o1 by simp
      then show ?thesis using True no by (auto simp: Let_def)
    qed
  next
    case False
    show ?thesis
    proof (cases "quote_at e (fetches w) ?sym")
      case (Inl ex)
      then have "?w' = w2"
        using False by (simp add: check_position_def utcnow_def fetch_prices_def Let_def w1_def w2_def)
      then show ?thesis using False Inl o2 by (auto simp: Let_def)
    next
      case (Inr qo)
      show ?thesis
      proof (cases qo)
        case None
        then have "?w' = w2"
          using False Inr
          by (simp add: check_position_def utcnow_def fetch_prices_def Let_def w1_def w2_def)
        then show ?thesis using False Inr None o2 by (auto simp: Let_def)
      next
        case (Some q)
        obtain s f where sf: "q = (s, f)" by (cases q)
        have q1: "quote_at e (fetches w) ?sym = Inr (Some (s, f))"
          using Inr Some sf by simp
        show ?thesis
        proof (cases "s = 0")
          case True
          then have "?w' = w2"
            using False q1
            by (simp add: check_position_def utcnow_def fetch_prices_def Let_def w1_def w2_def)
          then show ?thesis using False q1 True o2 by (auto simp: Let_def)
        next
          case nz: False
          let ?sp = "(f - s) / s * 100"
          let ?fire = "ot_market_type row = ''MARGIN'' \<and> ot_side row = ''LONG'' \<and> ?sp \<le> 0
                       \<or> ot_market_type row = ''MARGIN'' \<and> ot_side row = ''SHORT'' \<and> 0 \<le> ?sp"
          have step: "?w' = (if ?fire then close_trade e trade_id w2 else w2)"
            using False q1 nz row
            by (simp add: check_position_def utcnow_def fetch_prices_def Let_def w1_def w2_def)
          show ?thesis
          proof (cases "?fire \<and> (\<exists>q'. quote_at e (Suc (fetches w)) ?sym = Inr (Some q'))")
            case yes: True
            then obtain s' f' where q2: "quote_at e (fetches w2) ?sym = Inr (Some (s', f'))"
              unfolding f2 by auto
            have "?known" using yes by auto
            then obtain plan where "close_plan (ot_market_type row) (ot_side row) s' f' = Some plan"
              using plan_iff by blast
            then have "open_row trade_id (close_trade e trade_id w2) = None"
              using close_trade_closes [OF r2 q2] by simp
            then have "open_row trade_id ?w' = None" using step yes by simp
            then show ?thesis using False q1 nz yes by (auto simp: Let_def)
          next
            case no: False
            have "open_trades ?w' = open_trades w"
            proof (cases ?fire)
              case True
              then have "\<not> (\<exists>q'. quote_at e (fetches w2) ?sym = Inr (Some q'))"
                using no unfolding f2 by simp
              then have "open_trades (close_trade e trade_id w2) = open_trades w2"
                using close_trade_defers [OF r2] by blast
              moreover have "?w' = close_trade e trade_id w2"
                unfolding step by (rule if_P [OF True])
              ultimately show ?thesis using o2 by simp
            next
              case False
              have "?w' = w2"
                unfolding step by (rule if_not_P [OF False])
              then show ?thesis using o2 by simp
            qed
            then show ?thesis using False q1 nz no by (auto simp: Let_def)
          qed
        qed
      qed
    qed
  qed
qed


lemma check_position_other:
  "fst t \<noteq> trade_id \<Longrightarrow>
     open_row trade_id (snd (check_position e t w)) = open_row trade_id w"
  by (cases t)
     (simp add: check_position_def utcnow_def fetch_prices_def Let_def close_trade_other
       split: sum.splits option.splits prod.splits)

lemma check_positions_loop_other:
  "\<forall>t \<in> set ts. fst t \<noteq> trade_id \<Longrightarrow>
     open_row trade_id (snd (check_positions_loop e ts w)) = open_row trade_id w"
proof (induction ts arbitrary: w)
  case Nil
  show ?case by simp
next
  case (Cons t ts)
  obtain r w1 where step: "check_position e t w = (r, w1)" by (cases "check_position e t w")
  have "open_row trade_id w1 = open_row trade_id w"
    using check_position_other [of t trade_id e w] Cons.prems step by simp
  moreover have "open_row trade_id (snd (check_positions_loop e ts w1)) = open_row trade_id w1"
    using Cons.IH Cons.prems by simp
  ultimately show ?case using step by (cases r) simp_all
qed

lemma check_positions_loop_append:
  "check_positions_loop e (xs @ ys) w =
     (case check_positions_loop e xs w of
        (Inl ex, w1) \<Rightarrow> (Inl ex, w1)
      | (Inr u, w1) \<Rightarrow> check_positions_loop e ys w1)"
  by (induction xs arbitrary: w) (auto split: prod.splits sum.splits)

lemma find_open_distinct:
  "distinct (map ot_id rows) \<Longrightarrow> r \<in> set rows \<Longrightarrow> \<not> ot_closed r \<Longrightarrow>
     find (\<lambda>x. ot_id x = ot_id r \<and> \<not> ot_closed x) rows = Some r"
  by (induction rows) (auto simp: image_iff)

lemma select_open_row:
  assumes "distinct (map ot_id (open_trades w))"
    and "(trade_id, symbol, opened_at) \<in> set (select_open w)"
  shows "\<exists>row. open_row trade_id w = Some row \<and> ot_symbol row = symbol
            \<and> ot_timestamp_open row = opened_at"
proof -
  from assms(2) obtain r where r: "r \<in> set (open_trades w)" "\<not> ot_closed r"
    "ot_id r = trade_id" "ot_symbol r = symbol" "ot_timestamp_open r = opened_at"
    by (auto simp: select_open_def)
  then have "open_row trade_id w = Some r"
    using find_open_distinct [OF assms(1) r(1) r(2)] by (simp add: open_row_def)
  then show ?thesis using r by simp
qed

lemma select_open_distinct:
  "distinct (map ot_id (open_trades w)) \<Longrightarrow> distinct (map fst (select_open w))"
  by (simp add: select_open_def comp_def distinct_map_filter)

text \<open>
  Claim C7, as the code has it. Take a pass of \<open>check_open_positions\<close> over a table
  with distinct ids and a trade that is not closed, with row \<open>row\<close>, which the pass
  reaches in the state \<open>wi\<close> (the turns before it raised nothing). The pass closes the
  trade exactly when one of two things holds. Either the holding time read at its turn
  exceeds \<open>MAX_TRADE_DURATION\<close>, the row is \<open>MARGIN\<close> with side \<open>LONG\<close> or
  \<open>SHORT\<close> or is \<open>FUTURES\<close>, and the price fetch \<open>close_trade\<close> makes gives both
  prices. Or the holding time does not exceed it, the price fetch of the check gives both
  prices with a spot price other than 0 and a spread percent \<open>\<le> 0\<close> for
  \<open>MARGIN\<close>/\<open>LONG\<close> or \<open>\<ge> 0\<close> for \<open>MARGIN\<close>/\<open>SHORT\<close>, and the next
  price fetch, the one \<open>close_trade\<close> makes, gives both prices too. In every other
  case the row is the open row of its id after the pass, as it was before.
\<close>

theorem check_open_positions_closes_iff:
  assumes dist: "distinct (map ot_id (open_trades w))"
    and sel: "select_open w = pre @ (trade_id, symbol, opened_at) # post"
    and reach: "check_positions_loop e pre w = (Inr (), wi)"
    and row: "open_row trade_id w = Some row"
  shows
    "let now = utcnow_at e (clock_reads wi);
         timeout = (MAX_TRADE_DURATION < now - opened_at);
         known = (ot_market_type row = ''MARGIN'' \<and> (ot_side row = ''LONG'' \<or> ot_side row = ''SHORT'')
                  \<or> ot_market_type row = ''FUTURES'');
         reversal = (\<exists>spot_price futures_price.
                       quote_at e (fetches wi) symbol = Inr (Some (spot_price, futures_price))
                       \<and> spot_price \<noteq> 0
                       \<and> (ot_market_type row = ''MARGIN'' \<and> ot_side row = ''LONG''
                            \<and> (futures_price - spot_price) / spot_price * 100 \<le> 0
                          \<or> ot_market_type row = ''MARGIN'' \<and> ot_side row = ''SHORT''
                            \<and> 0 \<le> (futures_price - spot_price) / spot_price * 100));
         closes = (timeout \<and> known \<and> (\<exists>q. quote_at e (fetches wi) symbol = Inr (Some q))
                   \<or> \<not> timeout \<and> reversal
                      \<and> (\<exists>q. quote_at e (Suc (fetches wi)) symbol = Inr (Some q)))
     in (closes \<longrightarrow> open_row trade_id (check_open_positions e w) = None)
      \<and> (\<not> closes \<longrightarrow> open_row trade_id (check_open_positions e w) = Some row)"
proof -
  let ?t = "(trade_id, symbol, opened_at)"
  have mem: "?t \<in> set (select_open w)" using sel by simp
  obtain row' where "open_row trade_id w = Some row'"
    and "ot_symbol row' = symbol" and "ot_timestamp_open row' = opened_at"
    using select_open_row [OF dist mem] by blast
  then have fields: "ot_symbol row = symbol" "ot_timestamp_open row = opened_at"
    using row by simp_all
  have "distinct (map fst (pre @ ?t # post))"
    using select_open_distinct [OF dist] sel by simp
  then have pre_ids: "\<forall>t \<in> set pre. fst t \<noteq> trade_id"
    and post_ids: "\<forall>t \<in> set post. fst t \<noteq> trade_id"
    by auto
  have wi: "wi = snd (check_positions_loop e pre w)" using reach by simp
  have row_i: "open_row trade_id wi = Some row"
    unfolding wi using check_positions_loop_other [OF pre_ids] row by simp
  define w' where "w' = snd (check_position e ?t wi)"
  have final: "open_row trade_id (check_open_positions e w) = open_row trade_id w'"
  proof -
    obtain r w1 where step: "check_position e ?t wi = (r, w1)"
      by (cases "check_position e ?t wi")
    have w1: "w1 = w'" using step by (simp add: w'_def)
    show ?thesis
    proof (cases r)
      case (Inl ex)
      then show ?thesis
        using step w1
        by (simp add: check_open_positions_def sel check_positions_loop_append reach)
    next
      case (Inr u)
      then have "check_open_positions e w = snd (check_positions_loop e post w1)"
        using step
        by (simp add: check_open_positions_def sel check_positions_loop_append reach)
      then show ?thesis
        using check_positions_loop_other [OF post_ids, of e w1] w1 by simp
    qed
  qed
  have keep: "open_row trade_id w' = Some row" if "open_trades w' = open_trades wi"
    using that row_i by (simp add: open_row_def)
  show ?thesis
    using check_position_effect [OF row_i, of e] keep
    unfolding final fields w'_def [symmetric] Let_def
    by blast
qed

theorem check_open_positions_closes_iff_witness:
  "open_row 1 (check_open_positions (const_env 100 101) (one_trade_world ''MARGIN'' ''SHORT'')) = None"
proof -
  let ?w = "one_trade_world ''MARGIN'' ''SHORT''"
  let ?e = "const_env 100 101"
  let ?row = "\<lparr>ot_id = 1, ot_symbol = ''BTCUSDT'', ot_market_type = ''MARGIN'',
            ot_side = ''SHORT'', ot_entry_price = 100, ot_quantity = 1,
            ot_timestamp_open = 0, ot_close_price = None,
            ot_timestamp_close = None, ot_profit_usdt = 0, ot_closed = False\<rparr>"
  have dist: "distinct (map ot_id (open_trades ?w))" by code_simp
  have sel: "select_open ?w = [] @ (1, ''BTCUSDT'', 0) # []" by code_simp
  have reach: "check_positions_loop ?e [] ?w = (Inr (), ?w)" by simp
  have row: "open_row 1 ?w = Some ?row" by code_simp
  have now: "utcnow_at ?e (clock_reads ?w) = 0" by code_simp
  have q1: "quote_at ?e (fetches ?w) ''BTCUSDT'' = Inr (Some (100, 101))" by code_simp
  have q2: "quote_at ?e (Suc (fetches ?w)) ''BTCUSDT'' = Inr (Some (100, 101))" by code_simp
  show ?thesis
    using check_open_positions_closes_iff [OF dist sel reach row]
    by (simp add: Let_def now q1 q2 MAX_TRADE_DURATION_def)
qed

text \<open>
  Claim C7 as stated fails. A \<open>MARGIN\<close>/\<open>SHORT\<close> trade opened at second 0 is
  checked at second 5000, so its holding time exceeds \<open>MAX_TRADE_DURATION\<close>; the
  ticker calls time out, the fetch inside \<open>close_trade\<close> gives no prices, and the
  trade is still open after the pass.
\<close>

theorem check_open_positions_timeout_stays_open:
  "MAX_TRADE_DURATION
     < utcnow_at down_env (clock_reads (one_trade_world ''MARGIN'' ''SHORT'')) - 0
   \<and> select_open (one_trade_world ''MARGIN'' ''SHORT'') = [(1, ''BTCUSDT'', 0)]
   \<and> map (\<lambda>r. (ot_id r, ot_closed r))
       (open_trades (check_open_positions down_env (one_trade_world ''MARGIN'' ''SHORT'')))
       = [(1, False)]"
  by code_simp

end
